theory Spec2Isabelle
  imports Main
begin

section \<open>Data model\<close>

text \<open>
  The result types of the analysis client (package \<open>integrations\<close>). Go's \<open>int\<close> is modelled
  as \<open>int\<close>: the only arithmetic the code performs on these values is counting the elements
  of a slice and stepping an index below the length of a slice, so no operation can leave
  the 64-bit range. A Go \<open>string\<close> is a byte sequence, here a \<open>string\<close> (a list of 8-bit
  characters). A nil slice and an empty slice both have length 0 and are the list \<open>[]\<close>.
\<close>

record LintLocation =
  Line :: int
  Character :: int

record LintRange =
  Start :: LintLocation
  End :: LintLocation

record APIReference =
  ID :: string
  Name :: string

record RuleReference =
  Name :: string

record LintResult =
  Code :: string
  Path :: "string list"
  Message :: string
  Severity :: int
  Range :: LintRange
  Source :: string
  API :: APIReference
  Rule :: RuleReference

text \<open>The action configuration (package \<open>core\<close>).\<close>

record Configuration =
  GovernanceService :: string
  GovernanceAuth :: string
  RuleID :: string
  APIPath :: string
  Mocked :: string

section \<open>The mock result generator\<close>

text \<open>
  \<open>generateMockResults\<close> is a \<open>switch\<close> on the scenario string with a \<open>default\<close> branch; the
  cases are tried in the order of the source.
\<close>

definition generateMockResults :: "string \<Rightarrow> string \<Rightarrow> LintResult list" where
  "generateMockResults mockedType ruleID =
    (if mockedType = ''success'' then []
     else if mockedType = ''warning'' then
       [ \<lparr> Code = ''mock-warning-001'',
           Path = [''paths'', ''/test'', ''get'', ''responses''],
           Message = ''Mock warning: Consider adding rate limiting headers'',
           Severity = 1,
           Range = \<lparr> Start = \<lparr> Line = 10, Character = 5 \<rparr>,
                     End = \<lparr> Line = 10, Character = 15 \<rparr> \<rparr>,
           Source = ''mock-source'',
           API = \<lparr> ID = ''mock-api-id'', Name = ''Mock API'' \<rparr>,
           Rule = \<lparr> Name = ruleID \<rparr> \<rparr>,
         \<lparr> Code = ''mock-warning-002'',
           Path = [''paths'', ''/test'', ''get'', ''security''],
           Message = ''Mock warning: Consider adding authentication'',
           Severity = 1,
           Range = \<lparr> Start = \<lparr> Line = 8, Character = 3 \<rparr>,
                     End = \<lparr> Line = 8, Character = 12 \<rparr> \<rparr>,
           Source = ''mock-source'',
           API = \<lparr> ID = ''mock-api-id'', Name = ''Mock API'' \<rparr>,
           Rule = \<lparr> Name = ruleID \<rparr> \<rparr> ]
     else if mockedType = ''fail'' then
       [ \<lparr> Code = ''mock-error-001'',
           Path = [''paths'', ''/test'', ''get'', ''responses''],
           Message = ''Mock error: Missing required 401 response code'',
           Severity = 0,
           Range = \<lparr> Start = \<lparr> Line = 10, Character = 5 \<rparr>,
                     End = \<lparr> Line = 10, Character = 15 \<rparr> \<rparr>,
           Source = ''mock-source'',
           API = \<lparr> ID = ''mock-api-id'', Name = ''Mock API'' \<rparr>,
           Rule = \<lparr> Name = ruleID \<rparr> \<rparr>,
         \<lparr> Code = ''mock-error-002'',
           Path = [''paths'', ''/test'', ''get'', ''responses'', ''200''],
           Message = ''Mock error: Missing rate limiting headers in 200 response'',
           Severity = 0,
           Range = \<lparr> Start = \<lparr> Line = 12, Character = 7 \<rparr>,
                     End = \<lparr> Line = 12, Character = 10 \<rparr> \<rparr>,
           Source = ''mock-source'',
           API = \<lparr> ID = ''mock-api-id'', Name = ''Mock API'' \<rparr>,
           Rule = \<lparr> Name = ruleID \<rparr> \<rparr>,
         \<lparr> Code = ''mock-warning-003'',
           Path = [''paths'', ''/test'', ''get'', ''security''],
           Message = ''Mock warning: Consider adding authentication'',
           Severity = 1,
           Range = \<lparr> Start = \<lparr> Line = 8, Character = 3 \<rparr>,
                     End = \<lparr> Line = 8, Character = 12 \<rparr> \<rparr>,
           Source = ''mock-source'',
           API = \<lparr> ID = ''mock-api-id'', Name = ''Mock API'' \<rparr>,
           Rule = \<lparr> Name = ruleID \<rparr> \<rparr> ]
     else [])"

text \<open>
  What the fixtures are checked on: code, severity, the four coordinates of the range
  (start line, start character, end line, end character) and the rule name.
\<close>

definition fixture_view :: "LintResult \<Rightarrow> string \<times> int \<times> (int \<times> int) \<times> (int \<times> int) \<times> string" where
  "fixture_view r =
    (Code r, Severity r,
     (Line (Start (Range r)), Character (Start (Range r))),
     (Line (End (Range r)), Character (End (Range r))),
     Name (Rule r))"

section \<open>Configuration resolution and validation\<close>

text \<open>
  The process environment maps names to values. \<open>os.Getenv\<close> returns the empty string for a
  name that is not set, so an unset variable and one set to the empty string read the same.
\<close>

type_synonym environ = "string \<Rightarrow> string option"

definition Getenv :: "environ \<Rightarrow> string \<Rightarrow> string" where
  "Getenv e k = (case e k of None \<Rightarrow> [] | Some v \<Rightarrow> v)"

definition Setenv :: "environ \<Rightarrow> string \<Rightarrow> string \<Rightarrow> environ" where
  "Setenv e k v = e(k \<mapsto> v)"

text \<open>
  \<open>getConfiguration\<close> returns a configuration and an error; the error is \<open>nil\<close> on its only
  return path. A \<open>(value, error)\<close> result is a sum with the error message on the left. The
  body is the source's sequence of assignments to the fields of \<open>config\<close>, in its order.
\<close>

definition getConfiguration :: "environ \<Rightarrow> string + Configuration" where
  "getConfiguration e =
    (let config = \<lparr> GovernanceService = Getenv e ''INPUT_GOVERNANCE_SERVICE'',
                     GovernanceAuth = Getenv e ''INPUT_GOVERNANCE_AUTH'',
                     RuleID = Getenv e ''INPUT_RULE_ID'',
                     APIPath = Getenv e ''INPUT_API_PATH'',
                     Mocked = Getenv e ''INPUT_MOCKED'' \<rparr>;
         config = (if GovernanceService config = []
                   then config\<lparr>GovernanceService := Getenv e ''GOVERNANCE_SERVICE''\<rparr> else config);
         config = (if GovernanceAuth config = []
                   then config\<lparr>GovernanceAuth := Getenv e ''GOVERNANCE_AUTH''\<rparr> else config);
         config = (if RuleID config = []
                   then config\<lparr>RuleID := Getenv e ''RULE_ID''\<rparr> else config);
         config = (if APIPath config = []
                   then config\<lparr>APIPath := Getenv e ''API_PATH''\<rparr> else config);
         config = (if Mocked config = []
                   then config\<lparr>Mocked := Getenv e ''MOCKED''\<rparr> else config);
         config = (if GovernanceService config = []
                   then config\<lparr>GovernanceService := Getenv e ''GOVERNANCE_API_URL''\<rparr> else config);
         config = (if GovernanceAuth config = []
                   then config\<lparr>GovernanceAuth := Getenv e ''GOVERNANCE_API_TOKEN''\<rparr> else config);
         config = (if RuleID config = []
                   then config\<lparr>RuleID := Getenv e ''GOVERNANCE_RULE_ID''\<rparr> else config);
         config = (if APIPath config = []
                   then config\<lparr>APIPath := Getenv e ''OAS_FILE_PATH''\<rparr> else config)
     in Inr config)"

text \<open>
  The resolution rule in the words of the specification: the first non-empty value of an
  ordered list of tiers, the empty string when every tier is empty.
\<close>

fun first_non_empty :: "string list \<Rightarrow> string" where
  "first_non_empty [] = []"
| "first_non_empty (v # vs) = (if v = [] then first_non_empty vs else v)"

text \<open>
  \<open>Validate\<close> returns an \<open>error\<close>: \<open>None\<close> is \<open>nil\<close>, \<open>Some m\<close> an error with message \<open>m\<close>. It
  takes the configuration and returns nothing else, so it neither reads nor changes the
  environment, the file system or the configuration.
\<close>

definition Validate :: "Configuration \<Rightarrow> string option" where
  "Validate c =
    (if Mocked c \<noteq> [] then
       (if Mocked c \<noteq> ''success'' \<and> Mocked c \<noteq> ''fail'' \<and> Mocked c \<noteq> ''warning''
        then Some ''mocked must be one of: success, fail, warning''
        else if RuleID c = [] then Some ''rule_id is required''
        else if APIPath c = [] then Some ''api_path is required''
        else None)
     else if GovernanceService c = [] then Some ''governance_service is required''
     else if GovernanceAuth c = [] then Some ''governance_auth is required''
     else if RuleID c = [] then Some ''rule_id is required''
     else if APIPath c = [] then Some ''api_path is required''
     else None)"

section \<open>Formatting\<close>

text \<open>
  The verbs of \<open>fmt\<close> the code uses on integers: \<open>%d\<close> prints the decimal digits, with a
  leading minus sign for a negative number, and \<open>%4d\<close> pads that text with spaces on the left
  to a width of at least four. \<open>strings.Join\<close> puts the separator between the elements.
\<close>

definition digit :: "nat \<Rightarrow> char" where
  "digit n = ''0123456789'' ! (n mod 10)"

function decimal :: "nat \<Rightarrow> string" where
  "decimal n = (if n < 10 then [digit n] else decimal (n div 10) @ [digit n])"
  by pat_completeness auto
termination
  by (relation "measure id") auto

definition fmt_d :: "int \<Rightarrow> string" where
  "fmt_d i = (if i < 0 then CHR ''-'' # decimal (nat (- i)) else decimal (nat i))"

definition fmt_4d :: "int \<Rightarrow> string" where
  "fmt_4d i = replicate (4 - length (fmt_d i)) CHR '' '' @ fmt_d i"

fun Join :: "string list \<Rightarrow> string \<Rightarrow> string" where
  "Join [] sep = []"
| "Join [x] sep = x"
| "Join (x # y # ys) sep = x @ sep @ Join (y # ys) sep"

section \<open>The process and its surroundings\<close>

text \<open>
  Everything \<open>processResults\<close> reads or changes outside its arguments is a field of \<open>world\<close>:
  \<^item> \<open>os_env\<close>: the process environment, read by \<open>os.Getenv\<close> and written by \<open>os.Setenv\<close>;
  \<^item> \<open>os_open\<close>: what opening a path for reading gives: \<open>None\<close> when \<open>os.Open\<close> fails, otherwise
    the lines a \<open>bufio.Scanner\<close> yields from the file until \<open>Scan\<close> returns false;
  \<^item> \<open>os_openfile\<close>: whether \<open>os.OpenFile\<close> with the append, create and write-only flags
    succeeds on a path;
  \<^item> \<open>stdout\<close>: the texts written to standard output, one element for each call of
    \<open>fmt.Println\<close> or \<open>fmt.Printf\<close>, oldest first;
  \<^item> \<open>fs_calls\<close>: the file-system calls made so far, oldest first, successful or not;
  \<^item> \<open>logged\<close>: the entries written through the logger (level, message, fields).
\<close>

datatype fs_event =
    Open string
  | OpenFile string
  | Fprintf string string

type_synonym log_entry = "string \<times> string \<times> (string \<times> string) list"

record world =
  os_env :: environ
  os_open :: "string \<Rightarrow> string list option"
  os_openfile :: "string \<Rightarrow> bool"
  stdout :: "string list"
  fs_calls :: "fs_event list"
  logged :: "log_entry list"

section \<open>The result processor\<close>

text \<open>
  Lines 302 to 316 of \<open>processResults\<close>: the document path is looked up in the environment
  and, when it is not empty, the file is opened and scanned into lines. A failing open
  leaves \<open>oasLines\<close> empty.
\<close>

definition read_oasLines :: "world \<Rightarrow> string list \<times> world" where
  "read_oasLines w =
    (let apiPath = Getenv (os_env w) ''INPUT_API_PATH'';
         apiPath = (if apiPath = [] then Getenv (os_env w) ''API_PATH'' else apiPath)
     in if apiPath \<noteq> [] then
          (case os_open w apiPath of
             Some scanned \<Rightarrow> (scanned, w\<lparr>fs_calls := fs_calls w @ [Open apiPath]\<rparr>)
           | None \<Rightarrow> ([], w\<lparr>fs_calls := fs_calls w @ [Open apiPath]\<rparr>))
        else ([], w))"

text \<open>
  The inner loop of the snippet block (lines 343 to 345), from index \<open>i\<close>. Reading
  \<open>oasLines[i]\<close> with a negative index is a run-time panic in Go: the result is \<open>None\<close> then.
\<close>

function snippet_loop :: "string list \<Rightarrow> int \<Rightarrow> int \<Rightarrow> string list option" where
  "snippet_loop oasLines endLine i =
    (if i < endLine \<and> i < int (length oasLines) then
       (if i < 0 then None
        else
          (case snippet_loop oasLines endLine (i + 1) of
             None \<Rightarrow> None
           | Some printed \<Rightarrow>
               Some ((''    '' @ fmt_4d (i + 1) @ '' | '' @ oasLines ! nat i @ ''\<newline>'') # printed)))
     else Some [])"
  by pat_completeness auto
termination
  by (relation "measure (\<lambda>(oasLines, endLine, i). nat (endLine - i))") auto

text \<open>
  One iteration of the loop over the results (lines 321 to 348), on the two counters and the
  output written so far.
\<close>

definition report_result ::
  "string list \<Rightarrow> LintResult \<Rightarrow> int \<times> int \<times> string list \<Rightarrow> (int \<times> int \<times> string list) option" where
  "report_result oasLines result st =
    (case st of (errorCount, warningCount, out) \<Rightarrow>
      (let (sev, icon, errorCount, warningCount) =
             (if Severity result = 0 then
                (''ERROR'', [CHR 0xE2, CHR 0x9D, CHR 0x8C], errorCount + 1, warningCount)
              else if Severity result = 1 then
                (''WARNING'', [CHR 0xE2, CHR 0x9A, CHR 0xA0, CHR 0xEF, CHR 0xB8, CHR 0x8F],
                 errorCount, warningCount + 1)
              else
                (''INFO'', [CHR 0xE2, CHR 0x84, CHR 0xB9, CHR 0xEF, CHR 0xB8, CHR 0x8F],
                 errorCount, warningCount));
           path = Join (Path result) ''.'';
           out = out @
             [icon @ '' ['' @ sev @ ''] ['' @ path @ ''] '' @ Name (Rule result) @ ''\<newline>''
              @ ''    '' @ Message result @ ''\<newline>''
              @ ''    Location: line '' @ fmt_d (Line (Start (Range result)))
              @ '', char '' @ fmt_d (Character (Start (Range result)))
              @ '' - line '' @ fmt_d (Line (End (Range result)))
              @ '', char '' @ fmt_d (Character (End (Range result))) @ ''\<newline>'']
       in if 0 < length oasLines \<and> 0 < Line (Start (Range result))
             \<and> Line (End (Range result)) \<le> int (length oasLines) then
            (case snippet_loop oasLines (Line (End (Range result))) (Line (Start (Range result)) - 1) of
               None \<Rightarrow> None
             | Some printed \<Rightarrow>
                 Some (errorCount, warningCount,
                       out @ [''    --- OAS snippet ---\<newline>''] @ printed
                           @ [''    -------------------\<newline>'']))
          else Some (errorCount, warningCount, out)))"

fun report_loop ::
  "string list \<Rightarrow> LintResult list \<Rightarrow> int \<times> int \<times> string list \<Rightarrow> (int \<times> int \<times> string list) option" where
  "report_loop oasLines [] st = Some st"
| "report_loop oasLines (result # results) st =
    (case report_result oasLines result st of
       None \<Rightarrow> None
     | Some st' \<Rightarrow> report_loop oasLines results st')"

text \<open>
  The two output writers. Both ignore a failing \<open>os.OpenFile\<close>; the GitLab writer falls back
  to \<open>governance_output.env\<close> and also sets the variable in the process environment.
\<close>

definition setGitHubOutput :: "string \<Rightarrow> string \<Rightarrow> world \<Rightarrow> world" where
  "setGitHubOutput name val w =
    (let outputFile = Getenv (os_env w) ''GITHUB_OUTPUT'' in
     if outputFile \<noteq> [] then
       (if os_openfile w outputFile then
          w\<lparr>fs_calls := fs_calls w @
               [OpenFile outputFile, Fprintf outputFile (name @ ''='' @ val @ ''\<newline>'')]\<rparr>
        else w\<lparr>fs_calls := fs_calls w @ [OpenFile outputFile]\<rparr>)
     else w)"

definition setGitLabOutput :: "string \<Rightarrow> string \<Rightarrow> world \<Rightarrow> world" where
  "setGitLabOutput name val w =
    (let outputFile = Getenv (os_env w) ''GITLAB_OUTPUT_FILE'';
         outputFile = (if outputFile = [] then ''governance_output.env'' else outputFile);
         w = (if os_openfile w outputFile then
                w\<lparr>fs_calls := fs_calls w @
                     [OpenFile outputFile,
                      Fprintf outputFile (''export '' @ name @ ''='' @ val @ ''\<newline>'')]\<rparr>
              else w\<lparr>fs_calls := fs_calls w @ [OpenFile outputFile]\<rparr>)
     in w\<lparr>os_env := Setenv (os_env w) name val\<rparr>)"

text \<open>
  Lines 351 to 363 of \<open>processResults\<close>: the counts are written through the GitHub writer when
  \<open>GITHUB_ACTIONS\<close> is \<open>true\<close>, then through the GitLab writer when \<open>GITLAB_CI\<close> is \<open>true\<close>.
\<close>

definition set_outputs :: "int \<Rightarrow> int \<Rightarrow> int \<Rightarrow> world \<Rightarrow> world" where
  "set_outputs errorCount warningCount resultCount w =
    (let w = (if Getenv (os_env w) ''GITHUB_ACTIONS'' = ''true'' then
                setGitHubOutput ''total_issues'' (fmt_d resultCount)
                  (setGitHubOutput ''warning_count'' (fmt_d warningCount)
                    (setGitHubOutput ''error_count'' (fmt_d errorCount) w))
              else w)
     in if Getenv (os_env w) ''GITLAB_CI'' = ''true'' then
          setGitLabOutput ''total_issues'' (fmt_d resultCount)
            (setGitLabOutput ''warning_count'' (fmt_d warningCount)
              (setGitLabOutput ''error_count'' (fmt_d errorCount) w))
        else w)"

text \<open>
  \<open>processResults\<close> returns an \<open>error\<close> (\<open>None\<close> is \<open>nil\<close>) and the world it leaves behind; the
  outer \<open>None\<close> is a run-time panic.
\<close>

definition processResults :: "LintResult list \<Rightarrow> world \<Rightarrow> (string option \<times> world) option" where
  "processResults results w =
    (if length results = 0 then
       Some (None, w\<lparr>logged := logged w @ [(''info'', ''No governance issues found'', [])]\<rparr>)
     else
       (case read_oasLines w of (oasLines, w) \<Rightarrow>
        (let w = w\<lparr>stdout := stdout w @
                   [''\<newline>================ Governance Analysis Report ================\<newline>'']\<rparr>
         in case report_loop oasLines results (0, 0, stdout w) of
              None \<Rightarrow> None
            | Some (errorCount, warningCount, out) \<Rightarrow>
               (let w = w\<lparr>stdout := out @
                          [''===========================================================\<newline>\<newline>'']\<rparr>;
                    w = set_outputs errorCount warningCount (int (length results)) w
                in if 0 < errorCount then
                     Some (Some (''governance analysis failed with '' @ fmt_d errorCount
                                 @ '' errors and '' @ fmt_d warningCount @ '' warnings''), w)
                   else Some (None, w)))))"

section \<open>The analysis client\<close>

text \<open>
  The client holds the base URL and the token; its HTTP client and the JSON codec are not
  code of this repository, so what they answer is a parameter of the model:
  \<^item> \<open>json_Marshal\<close>: the request encoded as JSON, or the encoder's error;
  \<^item> \<open>NewRequest_error\<close>: the error of \<open>http.NewRequestWithContext\<close> for a method and a URL,
    \<open>None\<close> when the request can be built;
  \<^item> \<open>Do\<close>: the outcome of \<open>httpClient.Do\<close>: an error when no response arrives (connection
    refused, DNS failure, timeout), otherwise the response;
  \<^item> \<open>json_Unmarshal\<close>: the body decoded into findings, or the decoder's error.
  A response carries its status code and what \<open>io.ReadAll\<close> gives on its body.
\<close>

record http_request =
  req_method :: string
  req_url :: string
  req_header :: "(string \<times> string) list"
  req_body :: string

record http_response =
  StatusCode :: int
  ReadAll_Body :: "string + string"

record 'r net =
  json_Marshal :: "'r \<Rightarrow> string + string"
  NewRequest_error :: "string \<Rightarrow> string \<Rightarrow> string option"
  Do :: "http_request \<Rightarrow> string + http_response"
  json_Unmarshal :: "string \<Rightarrow> string + LintResult list"

record GovernanceClient =
  baseURL :: string
  authToken :: string

text \<open>
  \<open>http.Header.Set\<close> files the value under the canonical form of the key
  (\<open>textproto.CanonicalMIMEHeaderKey\<close>) and replaces what was there: a key holding a byte
  that is no header-field byte is kept as it is; in any other key the first letter and each
  letter after a hyphen are upper case and every other letter is lower case.
\<close>

definition validHeaderFieldByte :: "char \<Rightarrow> bool" where
  "validHeaderFieldByte c =
    (c \<in> set (''!#$%&*+-.^_|~0123456789'' @ [CHR 0x27, CHR 0x60]
              @ ''ABCDEFGHIJKLMNOPQRSTUVWXYZ'' @ ''abcdefghijklmnopqrstuvwxyz''))"

definition toUpper :: "char \<Rightarrow> char" where
  "toUpper c =
    (case map_of (zip ''abcdefghijklmnopqrstuvwxyz'' ''ABCDEFGHIJKLMNOPQRSTUVWXYZ'') c of
       Some u \<Rightarrow> u | None \<Rightarrow> c)"

definition toLower :: "char \<Rightarrow> char" where
  "toLower c =
    (case map_of (zip ''ABCDEFGHIJKLMNOPQRSTUVWXYZ'' ''abcdefghijklmnopqrstuvwxyz'') c of
       Some l \<Rightarrow> l | None \<Rightarrow> c)"

fun canonical_from :: "bool \<Rightarrow> string \<Rightarrow> string" where
  "canonical_from upper [] = []"
| "canonical_from upper (c # cs) =
    (let c = (if upper then toUpper c else toLower c)
     in c # canonical_from (c = CHR ''-'') cs)"

definition CanonicalMIMEHeaderKey :: "string \<Rightarrow> string" where
  "CanonicalMIMEHeaderKey s = (if list_all validHeaderFieldByte s then canonical_from True s else s)"

definition Header_Set :: "(string \<times> string) list \<Rightarrow> string \<Rightarrow> string \<Rightarrow> (string \<times> string) list" where
  "Header_Set h key v =
    (let k = CanonicalMIMEHeaderKey key in filter (\<lambda>kv. fst kv \<noteq> k) h @ [(k, v)])"

text \<open>The request \<open>makeAnalysisRequest\<close> sends once the body is encoded and the URL accepted.\<close>

definition analysis_request :: "GovernanceClient \<Rightarrow> string \<Rightarrow> http_request" where
  "analysis_request c requestBody =
    (let url = baseURL c @ ''/rulesets/evaluate'';
         req = \<lparr> req_method = ''POST'', req_url = url, req_header = [], req_body = requestBody \<rparr>;
         req = req\<lparr>req_header := Header_Set (req_header req) ''Content-Type'' ''application/json''\<rparr>;
         req = req\<lparr>req_header := Header_Set (req_header req) ''X-API-Key'' (authToken c)\<rparr>
     in req)"

text \<open>
  \<open>makeAnalysisRequest\<close> returns the findings or an error, and the log with its entries
  added. Each \<open>fmt.Errorf\<close> with \<open>%w\<close> puts its prefix before the message of the wrapped
  error.
\<close>

definition makeAnalysisRequest ::
  "'r net \<Rightarrow> GovernanceClient \<Rightarrow> 'r \<Rightarrow> log_entry list \<Rightarrow> (string + LintResult list) \<times> log_entry list" where
  "makeAnalysisRequest net c request lg =
    (case json_Marshal net request of
       Inl err \<Rightarrow> (Inl (''failed to marshal request: '' @ err), lg)
     | Inr requestBody \<Rightarrow>
        (let url = baseURL c @ ''/rulesets/evaluate'' in
         case NewRequest_error net ''POST'' url of
           Some err \<Rightarrow> (Inl (''failed to create request: '' @ err), lg)
         | None \<Rightarrow>
            (let req = analysis_request c requestBody;
                 lg = lg @ [(''debug'', ''Making request to governance service'', [(''url'', url)])]
             in case Do net req of
                  Inl err \<Rightarrow> (Inl (''failed to make request: '' @ err), lg)
                | Inr resp \<Rightarrow>
                   (case ReadAll_Body resp of
                      Inl err \<Rightarrow> (Inl (''failed to read response body: '' @ err), lg)
                    | Inr body \<Rightarrow>
                       if StatusCode resp \<noteq> 200 then
                         (Inl (''governance service returned status '' @ fmt_d (StatusCode resp)
                               @ '': '' @ body),
                          lg @ [(''error'', ''Governance service returned error'',
                                 [(''status_code'', fmt_d (StatusCode resp)),
                                  (''response_body'', body)])])
                       else
                         (case json_Unmarshal net body of
                            Inl err \<Rightarrow> (Inl (''failed to unmarshal response: '' @ err), lg)
                          | Inr results \<Rightarrow> (Inr results, lg))))))"

section \<open>The report as a function of the findings\<close>

text \<open>
  The text one finding contributes to the report, stated on its own so that the output of
  the loop can be written down: the entry of lines 322 to 338 (icon, level, path, rule name,
  message and location) and the snippet block, which shows the lines numbered \<open>startLine\<close>
  to \<open>endLine\<close> between a header and a footer. A line of the block is four spaces of
  indentation, the line number in a field of width four, a bar and the line of the document.
  \<open>claimed_snippet_line\<close> is the line in the words of the specification, which has the
  number first: \<open>   1 | <line>\<close> for line 1.
\<close>

definition finding_text :: "LintResult \<Rightarrow> string" where
  "finding_text result =
    (if Severity result = 0 then [CHR 0xE2, CHR 0x9D, CHR 0x8C] @ '' [ERROR''
     else if Severity result = 1 then
       [CHR 0xE2, CHR 0x9A, CHR 0xA0, CHR 0xEF, CHR 0xB8, CHR 0x8F] @ '' [WARNING''
     else [CHR 0xE2, CHR 0x84, CHR 0xB9, CHR 0xEF, CHR 0xB8, CHR 0x8F] @ '' [INFO'')
    @ ''] ['' @ Join (Path result) ''.'' @ ''] '' @ Name (Rule result) @ ''\<newline>''
    @ ''    '' @ Message result @ ''\<newline>''
    @ ''    Location: line '' @ fmt_d (Line (Start (Range result)))
    @ '', char '' @ fmt_d (Character (Start (Range result)))
    @ '' - line '' @ fmt_d (Line (End (Range result)))
    @ '', char '' @ fmt_d (Character (End (Range result))) @ ''\<newline>''"

definition snippet_line :: "string list \<Rightarrow> int \<Rightarrow> string" where
  "snippet_line oasLines n = ''    '' @ fmt_4d n @ '' | '' @ oasLines ! nat (n - 1) @ ''\<newline>''"

definition claimed_snippet_line :: "string list \<Rightarrow> int \<Rightarrow> string" where
  "claimed_snippet_line oasLines n = fmt_4d n @ '' | '' @ oasLines ! nat (n - 1) @ ''\<newline>''"

definition snippet_block :: "string list \<Rightarrow> int \<Rightarrow> int \<Rightarrow> string list" where
  "snippet_block oasLines startLine endLine =
    ''    --- OAS snippet ---\<newline>'' # map (snippet_line oasLines) [startLine..endLine]
    @ [''    -------------------\<newline>'']"

definition has_snippet :: "string list \<Rightarrow> LintResult \<Rightarrow> bool" where
  "has_snippet oasLines result =
    (oasLines \<noteq> [] \<and> 0 < Line (Start (Range result))
     \<and> Line (End (Range result)) \<le> int (length oasLines))"

definition finding_report :: "string list \<Rightarrow> LintResult \<Rightarrow> string list" where
  "finding_report oasLines result =
    finding_text result #
    (if has_snippet oasLines result
     then snippet_block oasLines (Line (Start (Range result))) (Line (End (Range result)))
     else [])"

definition count_severity :: "int \<Rightarrow> LintResult list \<Rightarrow> int" where
  "count_severity s results = int (length (filter (\<lambda>r. Severity r = s) results))"

definition report_banner :: string where
  "report_banner = ''\<newline>================ Governance Analysis Report ================\<newline>''"

definition report_footer :: string where
  "report_footer = ''===========================================================\<newline>\<newline>''"

definition failure_message :: "int \<Rightarrow> int \<Rightarrow> string" where
  "failure_message errorCount warningCount =
    ''governance analysis failed with '' @ fmt_d errorCount @ '' errors and ''
    @ fmt_d warningCount @ '' warnings''"

text \<open>
  The world once the report is printed and before the outputs are written: the document has
  been looked up and read, and banner, findings and footer are on standard output.
\<close>

definition reported :: "LintResult list \<Rightarrow> world \<Rightarrow> world" where
  "reported results w =
    (snd (read_oasLines w))\<lparr>stdout := stdout w @ [report_banner]
       @ concat (map (finding_report (fst (read_oasLines w))) results) @ [report_footer]\<rparr>"

section \<open>Concrete inputs\<close>

text \<open>
  A finding at lines \<open>s\<close> to \<open>e\<close> with a given severity, a world with a one-line document at
  \<open>api.yaml\<close> named by \<open>INPUT_API_PATH\<close> and both platform flags set, and a world whose
  document path is given by the legacy alias only.
\<close>

definition finding_at :: "int \<Rightarrow> int \<Rightarrow> int \<Rightarrow> LintResult" where
  "finding_at sev s e =
    \<lparr> Code = ''c'', Path = [''paths'', ''/x''], Message = ''m'', Severity = sev,
      Range = \<lparr> Start = \<lparr> Line = s, Character = 1 \<rparr>, End = \<lparr> Line = e, Character = 2 \<rparr> \<rparr>,
      Source = ''s'', API = \<lparr> ID = ''a'', Name = ''A'' \<rparr>, Rule = \<lparr> Name = ''r'' \<rparr> \<rparr>"

definition one_line_world :: world where
  "one_line_world =
    \<lparr> os_env = [''INPUT_API_PATH'' \<mapsto> ''api.yaml'', ''GITHUB_ACTIONS'' \<mapsto> ''true'',
                 ''GITHUB_OUTPUT'' \<mapsto> ''out.txt'', ''GITLAB_CI'' \<mapsto> ''true''],
      os_open = (\<lambda>p. if p = ''api.yaml'' then Some [''openapi: 3.1.0''] else None),
      os_openfile = (\<lambda>p. True),
      stdout = [], fs_calls = [], logged = [] \<rparr>"

definition legacy_world :: world where
  "legacy_world =
    \<lparr> os_env = [''OAS_FILE_PATH'' \<mapsto> ''api.yaml'', ''GITHUB_ACTIONS'' \<mapsto> ''true'',
                 ''GITHUB_OUTPUT'' \<mapsto> ''out.txt''],
      os_open = (\<lambda>p. if p = ''api.yaml'' then Some [''openapi: 3.1.0''] else None),
      os_openfile = (\<lambda>p. True),
      stdout = [], fs_calls = [], logged = [] \<rparr>"

definition tier_env :: environ where
  "tier_env =
    [''INPUT_RULE_ID'' \<mapsto> ''r-input'', ''RULE_ID'' \<mapsto> ''r-plain'',
     ''INPUT_GOVERNANCE_SERVICE'' \<mapsto> ''http://svc'',
     ''OAS_FILE_PATH'' \<mapsto> ''legacy.yaml'', ''GOVERNANCE_API_TOKEN'' \<mapsto> ''tok'']"

text \<open>
  A client, and a network that answers every request with a given outcome. The request is
  encoded to a given text. The decoder answers as \<open>json.Unmarshal\<close> into a slice of
  \<open>LintResult\<close> does on five bodies: \<open>null\<close> sets the slice to nil, \<open>[]\<close> gives the empty
  slice, a \<open>null\<close> element and an object without fields both leave the element at its zero
  value, and \<open><html>\<close> is a syntax error at its first byte. What it answers on any other
  body is a parameter.
\<close>

definition test_client :: GovernanceClient where
  "test_client = \<lparr> baseURL = ''http://svc'', authToken = ''tok'' \<rparr>"

definition zero_finding :: LintResult where
  "zero_finding =
    \<lparr> Code = [], Path = [], Message = [], Severity = 0,
      Range = \<lparr> Start = \<lparr> Line = 0, Character = 0 \<rparr>, End = \<lparr> Line = 0, Character = 0 \<rparr> \<rparr>,
      Source = [], API = \<lparr> ID = [], Name = [] \<rparr>, Rule = \<lparr> Name = [] \<rparr> \<rparr>"

definition Unmarshal_findings ::
  "(string \<Rightarrow> string + LintResult list) \<Rightarrow> string \<Rightarrow> string + LintResult list" where
  "Unmarshal_findings other body =
    (if body = ''null'' then Inr []
     else if body = ''[]'' then Inr []
     else if body = ''[null]'' then Inr [zero_finding]
     else if body = ''[{}]'' then Inr [zero_finding]
     else if body = ''<html>'' then Inl ''invalid character '<' looking for beginning of value''
     else other body)"

definition answering ::
  "string + http_response \<Rightarrow> string \<Rightarrow> (string \<Rightarrow> string + LintResult list) \<Rightarrow> unit net" where
  "answering outcome encoded other =
    \<lparr> json_Marshal = (\<lambda>request. Inr encoded),
      NewRequest_error = (\<lambda>method url. None),
      Do = (\<lambda>req. outcome),
      json_Unmarshal = Unmarshal_findings other \<rparr>"

section \<open>Lemmas on the model\<close>

declare decimal.simps [simp del]
declare snippet_loop.simps [simp del]

subsection \<open>Formatting small numbers\<close>

lemma fmt_d_small:
  "fmt_d 0 = ''0''" "fmt_d 1 = ''1''" "fmt_d 2 = ''2''" "fmt_d 3 = ''3''" "fmt_d 401 = ''401''"
  by (simp_all add: fmt_d_def decimal.simps digit_def)

lemma fmt_4d_1: "fmt_4d 1 = ''   1''"
  by (simp add: fmt_4d_def fmt_d_small eval_nat_numeral)

subsection \<open>The headers of the request\<close>

lemma analysis_request_header:
  "req_header (analysis_request c requestBody) =
     [(''Content-Type'', ''application/json''), (''X-Api-Key'', authToken c)]"
  by (simp add: analysis_request_def Header_Set_def CanonicalMIMEHeaderKey_def
      validHeaderFieldByte_def toUpper_def toLower_def Let_def)

subsection \<open>Configuration resolution, one assignment at a time\<close>

lemma if_upd_GovernanceService:
  "(if b then c\<lparr>GovernanceService := v\<rparr> else c) =
   c\<lparr>GovernanceService := (if b then v else GovernanceService c)\<rparr>"
  by simp

lemma if_upd_GovernanceAuth:
  "(if b then c\<lparr>GovernanceAuth := v\<rparr> else c) =
   c\<lparr>GovernanceAuth := (if b then v else GovernanceAuth c)\<rparr>"
  by simp

lemma if_upd_RuleID:
  "(if b then c\<lparr>RuleID := v\<rparr> else c) = c\<lparr>RuleID := (if b then v else RuleID c)\<rparr>"
  by simp

lemma if_upd_APIPath:
  "(if b then c\<lparr>APIPath := v\<rparr> else c) = c\<lparr>APIPath := (if b then v else APIPath c)\<rparr>"
  by simp

lemma if_upd_Mocked:
  "(if b then c\<lparr>Mocked := v\<rparr> else c) = c\<lparr>Mocked := (if b then v else Mocked c)\<rparr>"
  by simp

lemmas if_upd =
  if_upd_GovernanceService if_upd_GovernanceAuth if_upd_RuleID if_upd_APIPath if_upd_Mocked

lemma Let_top: "f a = r \<Longrightarrow> Let a f = r"
  by simp

text \<open>
  The assignments are taken from the outside in, each on a configuration that is already a
  record of field values, so that the term stays small.
\<close>

lemma getConfiguration_tiers:
  "getConfiguration e = Inr
     \<lparr> GovernanceService = first_non_empty [Getenv e ''INPUT_GOVERNANCE_SERVICE'',
          Getenv e ''GOVERNANCE_SERVICE'', Getenv e ''GOVERNANCE_API_URL''],
       GovernanceAuth = first_non_empty [Getenv e ''INPUT_GOVERNANCE_AUTH'',
          Getenv e ''GOVERNANCE_AUTH'', Getenv e ''GOVERNANCE_API_TOKEN''],
       RuleID = first_non_empty [Getenv e ''INPUT_RULE_ID'',
          Getenv e ''RULE_ID'', Getenv e ''GOVERNANCE_RULE_ID''],
       APIPath = first_non_empty [Getenv e ''INPUT_API_PATH'',
          Getenv e ''API_PATH'', Getenv e ''OAS_FILE_PATH''],
       Mocked = first_non_empty [Getenv e ''INPUT_MOCKED'', Getenv e ''MOCKED''] \<rparr>"
  unfolding getConfiguration_def if_upd
  apply (rule Let_top, simp only: Configuration.simps cong: let_weak_cong)+
  apply (simp split del: if_split cong: if_cong)
  apply (intro conjI; simp)
  done

subsection \<open>The loops of the result processor\<close>

lemma snippet_loop_lines:
  "0 \<le> i \<Longrightarrow> endLine \<le> int (length oasLines) \<Longrightarrow>
   snippet_loop oasLines endLine i = Some (map (snippet_line oasLines) [i + 1..endLine])"
proof (induction oasLines endLine i rule: snippet_loop.induct)
  case (1 oasLines endLine i)
  show ?case
  proof (cases "i < endLine")
    case True
    then have rec: "snippet_loop oasLines endLine (i + 1) = Some (map (snippet_line oasLines) [i + 1 + 1..endLine])"
      using 1 by simp
    have up: "[i + 1..endLine] = (i + 1) # [i + 1 + 1..endLine]"
      using True by (simp add: upto_rec1)
    show ?thesis
      using True 1(2,3) rec
      by (subst snippet_loop.simps) (simp add: up snippet_line_def)
  next
    case False
    then show ?thesis
      by (subst snippet_loop.simps) simp
  qed
qed

lemma report_result_eq:
  "report_result oasLines result (errorCount, warningCount, out) =
     Some (errorCount + (if Severity result = 0 then 1 else 0),
           warningCount + (if Severity result = 1 then 1 else 0),
           out @ finding_report oasLines result)"
proof (cases "has_snippet oasLines result")
  case True
  then have "snippet_loop oasLines (Line (End (Range result))) (Line (Start (Range result)) - 1)
      = Some (map (snippet_line oasLines) [Line (Start (Range result))..Line (End (Range result))])"
    using snippet_loop_lines [of "Line (Start (Range result)) - 1" "Line (End (Range result))" oasLines]
    by (simp add: has_snippet_def)
  with True show ?thesis
    by (simp add: report_result_def finding_report_def finding_text_def snippet_block_def has_snippet_def)
next
  case False
  then show ?thesis
    by (auto simp add: report_result_def finding_report_def finding_text_def has_snippet_def)
qed

lemma report_loop_eq:
  "report_loop oasLines results (errorCount, warningCount, out) =
     Some (errorCount + count_severity 0 results, warningCount + count_severity 1 results,
           out @ concat (map (finding_report oasLines) results))"
proof (induction results arbitrary: errorCount warningCount out)
  case Nil
  then show ?case by (simp add: count_severity_def)
next
  case (Cons r rs)
  show ?case
    by (simp add: report_result_eq Cons.IH count_severity_def)
qed

lemma read_oasLines_eq:
  "read_oasLines w =
    (let p = first_non_empty [Getenv (os_env w) ''INPUT_API_PATH'', Getenv (os_env w) ''API_PATH'']
     in if p = [] then ([], w)
        else (case os_open w p of None \<Rightarrow> [] | Some scanned \<Rightarrow> scanned,
              w\<lparr>fs_calls := fs_calls w @ [Open p]\<rparr>))"
  by (simp add: read_oasLines_def Let_def split: option.split)

lemma read_oasLines_stdout: "stdout (snd (read_oasLines w)) = stdout w"
  by (simp add: read_oasLines_eq Let_def)

lemma processResults_nonempty:
  assumes "results \<noteq> []"
  shows "processResults results w =
    Some (if 0 < count_severity 0 results
          then Some (failure_message (count_severity 0 results) (count_severity 1 results))
          else None,
          set_outputs (count_severity 0 results) (count_severity 1 results) (int (length results))
            ((snd (read_oasLines w))\<lparr>stdout := stdout w @ [report_banner]
                @ concat (map (finding_report (fst (read_oasLines w))) results)
                @ [report_footer]\<rparr>))"
proof -
  obtain oasLines w1 where r: "read_oasLines w = (oasLines, w1)"
    by (cases "read_oasLines w")
  have s: "stdout w1 = stdout w"
    using read_oasLines_stdout [of w] r by simp
  show ?thesis
    using assms
    by (simp add: processResults_def r s report_loop_eq Let_def failure_message_def
        report_banner_def report_footer_def)
qed

lemma processResults_empty:
  "processResults [] w =
     Some (None, w\<lparr>logged := logged w @ [(''info'', ''No governance issues found'', [])]\<rparr>)"
  by (simp add: processResults_def)

lemma setGitHubOutput_frame:
  "stdout (setGitHubOutput n v w) = stdout w \<and> os_env (setGitHubOutput n v w) = os_env w
   \<and> logged (setGitHubOutput n v w) = logged w"
  by (simp add: setGitHubOutput_def Let_def)

lemma setGitLabOutput_frame:
  "stdout (setGitLabOutput n v w) = stdout w \<and> logged (setGitLabOutput n v w) = logged w"
  by (simp add: setGitLabOutput_def Let_def)

lemma set_outputs_stdout: "stdout (set_outputs e wc n w) = stdout w"
  by (simp add: set_outputs_def Let_def setGitHubOutput_frame setGitLabOutput_frame)

lemma count_severity_bound:
  "count_severity 0 results + count_severity 1 results \<le> int (length results)
   \<and> (count_severity 0 results + count_severity 1 results = int (length results)
        \<longleftrightarrow> (\<forall>r\<in>set results. Severity r = 0 \<or> Severity r = 1))"
proof (induction results)
  case Nil
  then show ?case by (simp add: count_severity_def)
next
  case (Cons r rs)
  then show ?case by (auto simp add: count_severity_def)
qed

lemma finding_report_no_lines: "finding_report [] r = [finding_text r]"
  by (simp add: finding_report_def has_snippet_def)

lemma report_no_lines: "concat (map (finding_report []) results) = map finding_text results"
  by (induction results) (simp_all add: finding_report_no_lines)

section \<open>Properties of the mock result generator\<close>

text \<open>
  Claim C1. For every rule id, scenario \<open>success\<close> gives the empty sequence; scenario
  \<open>warning\<close> gives exactly two findings, both of severity 1, with codes mock-warning-001 and
  mock-warning-002 at (10,5)-(10,15) and (8,3)-(8,12); scenario \<open>fail\<close> gives exactly three
  findings in the order mock-error-001 (severity 0, (10,5)-(10,15)), mock-error-002
  (severity 0, (12,7)-(12,10)), mock-warning-003 (severity 1, (8,3)-(8,12)); every finding
  carries the rule id as its rule name, and the rule id enters the output through that field
  only: the output for one rule id is the output for any other with the rule reference
  replaced.
\<close>

theorem generateMockResults_fixtures:
  "generateMockResults ''success'' ruleID = []
   \<and> map fixture_view (generateMockResults ''warning'' ruleID) =
       [(''mock-warning-001'', 1, (10, 5), (10, 15), ruleID),
        (''mock-warning-002'', 1, (8, 3), (8, 12), ruleID)]
   \<and> map fixture_view (generateMockResults ''fail'' ruleID) =
       [(''mock-error-001'', 0, (10, 5), (10, 15), ruleID),
        (''mock-error-002'', 0, (12, 7), (12, 10), ruleID),
        (''mock-warning-003'', 1, (8, 3), (8, 12), ruleID)]
   \<and> generateMockResults mockedType ruleID =
       map (\<lambda>r. r\<lparr>Rule := \<lparr>Name = ruleID\<rparr>\<rparr>) (generateMockResults mockedType ruleID')"
  by (simp add: generateMockResults_def fixture_view_def)

section \<open>Properties of the configuration resolver\<close>

text \<open>
  Claim C4. Configuration resolution takes, for each field on its own, the first non-empty
  value of its tiers in order: the \<open>INPUT_\<close> name, the plain name and, for the service URL,
  the token, the rule id and the document path, a legacy alias; the mock flag has the first
  two tiers only. So a higher tier that is set wins over the lower ones, the alias is used
  when both higher tiers are empty, and no variable other than \<open>INPUT_MOCKED\<close> and \<open>MOCKED\<close>
  has an effect on the mock flag.
\<close>

theorem getConfiguration_first_non_empty:
  "getConfiguration e = Inr
     \<lparr> GovernanceService = first_non_empty [Getenv e ''INPUT_GOVERNANCE_SERVICE'',
          Getenv e ''GOVERNANCE_SERVICE'', Getenv e ''GOVERNANCE_API_URL''],
       GovernanceAuth = first_non_empty [Getenv e ''INPUT_GOVERNANCE_AUTH'',
          Getenv e ''GOVERNANCE_AUTH'', Getenv e ''GOVERNANCE_API_TOKEN''],
       RuleID = first_non_empty [Getenv e ''INPUT_RULE_ID'',
          Getenv e ''RULE_ID'', Getenv e ''GOVERNANCE_RULE_ID''],
       APIPath = first_non_empty [Getenv e ''INPUT_API_PATH'',
          Getenv e ''API_PATH'', Getenv e ''OAS_FILE_PATH''],
       Mocked = first_non_empty [Getenv e ''INPUT_MOCKED'', Getenv e ''MOCKED''] \<rparr>
   \<and> (\<forall>k v. k \<noteq> ''INPUT_MOCKED'' \<and> k \<noteq> ''MOCKED'' \<longrightarrow>
         map_sum id Mocked (getConfiguration (e(k \<mapsto> v))) = map_sum id Mocked (getConfiguration e))"
proof -
  have "map_sum id Mocked (getConfiguration (e(k \<mapsto> v))) = map_sum id Mocked (getConfiguration e)"
    if "k \<noteq> ''INPUT_MOCKED''" "k \<noteq> ''MOCKED''" for k v
    using that unfolding getConfiguration_tiers by (simp add: Getenv_def)
  then show ?thesis using getConfiguration_tiers [of e] by blast
qed

text \<open>
  The theorem at an environment with both higher tiers of the rule id set, the service URL
  under its \<open>INPUT_\<close> name only, and the token and the document path under their aliases
  only; setting a further variable \<open>GOVERNANCE_MOCKED\<close> leaves the mock flag empty.
\<close>

theorem getConfiguration_first_non_empty_witness:
  "getConfiguration tier_env = Inr \<lparr> GovernanceService = ''http://svc'', GovernanceAuth = ''tok'',
       RuleID = ''r-input'', APIPath = ''legacy.yaml'', Mocked = [] \<rparr>
   \<and> ''GOVERNANCE_MOCKED'' \<noteq> ''INPUT_MOCKED'' \<and> ''GOVERNANCE_MOCKED'' \<noteq> ''MOCKED''
   \<and> map_sum id Mocked (getConfiguration (tier_env(''GOVERNANCE_MOCKED'' \<mapsto> ''fail''))) = Inr []"
  using getConfiguration_first_non_empty [of tier_env]
  by (simp add: tier_env_def Getenv_def)

text \<open>
  Claim C5. \<open>Validate\<close> fails when the mock scenario is non-empty and not one of \<open>success\<close>,
  \<open>fail\<close>, \<open>warning\<close>; with one of these scenarios it fails exactly when the rule id or the
  document path is empty, whatever the service URL and the token are; with an empty scenario
  it fails exactly when one of the four other fields is empty. \<open>Validate\<close> is a function of the
  configuration alone and returns only the error.
\<close>

theorem Validate_cases:
  "(Mocked c \<noteq> [] \<and> Mocked c \<noteq> ''success'' \<and> Mocked c \<noteq> ''fail'' \<and> Mocked c \<noteq> ''warning''
      \<longrightarrow> Validate c = Some ''mocked must be one of: success, fail, warning'')
   \<and> (Mocked c = ''success'' \<or> Mocked c = ''fail'' \<or> Mocked c = ''warning''
      \<longrightarrow> (Validate c \<noteq> None \<longleftrightarrow> RuleID c = [] \<or> APIPath c = []))
   \<and> (Mocked c = []
      \<longrightarrow> (Validate c \<noteq> None \<longleftrightarrow>
            GovernanceService c = [] \<or> GovernanceAuth c = [] \<or> RuleID c = [] \<or> APIPath c = []))"
  by (auto simp add: Validate_def)

theorem Validate_cases_witness:
  "Validate \<lparr> GovernanceService = [], GovernanceAuth = [], RuleID = ''r'', APIPath = ''a.yaml'',
              Mocked = ''bogus'' \<rparr> = Some ''mocked must be one of: success, fail, warning''
   \<and> Validate \<lparr> GovernanceService = [], GovernanceAuth = [], RuleID = ''r'', APIPath = ''a.yaml'',
              Mocked = ''success'' \<rparr> = None
   \<and> Validate \<lparr> GovernanceService = [], GovernanceAuth = ''t'', RuleID = ''r'', APIPath = ''a.yaml'',
              Mocked = [] \<rparr> \<noteq> None"
  using Validate_cases [of "\<lparr> GovernanceService = [], GovernanceAuth = [], RuleID = ''r'',
      APIPath = ''a.yaml'', Mocked = ''bogus'' \<rparr>"]
    Validate_cases [of "\<lparr> GovernanceService = [], GovernanceAuth = [], RuleID = ''r'',
      APIPath = ''a.yaml'', Mocked = ''success'' \<rparr>"]
    Validate_cases [of "\<lparr> GovernanceService = [], GovernanceAuth = ''t'', RuleID = ''r'',
      APIPath = ''a.yaml'', Mocked = [] \<rparr>"]
  by simp

section \<open>Properties of the analysis client\<close>

text \<open>
  Claim C7, as amended. Once the request is encoded and built: a failure of the transport is
  an error; a failure to read the body is an error, whatever the status, and its message
  carries no status code; a response with a status other than 200 whose body was read is an
  error whose message carries the status code and the body as received; a response with
  status 200 whose body \<open>json.Unmarshal\<close> rejects is an error; a response with status 200
  whose body \<open>json.Unmarshal\<close> decodes returns the decoded findings, the empty sequence
  included. What is decoded is what \<open>json.Unmarshal\<close> accepts for a slice of \<open>LintResult\<close>,
  which is more than the arrays of finding objects.
\<close>

theorem makeAnalysisRequest_outcomes:
  assumes "json_Marshal net request = Inr requestBody"
    and "NewRequest_error net ''POST'' (baseURL c @ ''/rulesets/evaluate'') = None"
  shows "(\<forall>err. Do net (analysis_request c requestBody) = Inl err \<longrightarrow>
            fst (makeAnalysisRequest net c request lg) = Inl (''failed to make request: '' @ err))
   \<and> (\<forall>resp err. Do net (analysis_request c requestBody) = Inr resp \<and> ReadAll_Body resp = Inl err \<longrightarrow>
            fst (makeAnalysisRequest net c request lg) = Inl (''failed to read response body: '' @ err))
   \<and> (\<forall>resp body. Do net (analysis_request c requestBody) = Inr resp \<and> ReadAll_Body resp = Inr body
            \<and> StatusCode resp \<noteq> 200 \<longrightarrow>
            fst (makeAnalysisRequest net c request lg) =
              Inl (''governance service returned status '' @ fmt_d (StatusCode resp) @ '': '' @ body))
   \<and> (\<forall>resp body err. Do net (analysis_request c requestBody) = Inr resp \<and> ReadAll_Body resp = Inr body
            \<and> StatusCode resp = 200 \<and> json_Unmarshal net body = Inl err \<longrightarrow>
            fst (makeAnalysisRequest net c request lg) = Inl (''failed to unmarshal response: '' @ err))
   \<and> (\<forall>resp body results. Do net (analysis_request c requestBody) = Inr resp
            \<and> ReadAll_Body resp = Inr body
            \<and> StatusCode resp = 200 \<and> json_Unmarshal net body = Inr results \<longrightarrow>
            fst (makeAnalysisRequest net c request lg) = Inr results)"
  using assms by (simp add: makeAnalysisRequest_def Let_def)

text \<open>
  The theorem on a refused connection, an interrupted body, a 401 answer, a 200 answer that
  is not JSON, a 200 answer with the empty array, and a 200 answer with one object, for every
  encoding of the request and every decoder that answers these bodies as \<open>json.Unmarshal\<close>
  does.
\<close>

theorem makeAnalysisRequest_outcomes_witness:
  "\<forall>encoded other.
     fst (makeAnalysisRequest
            (answering (Inl ''connection refused'') encoded other) test_client () [])
       = Inl ''failed to make request: connection refused''
   \<and> fst (makeAnalysisRequest
            (answering (Inr \<lparr>StatusCode = 200, ReadAll_Body = Inl ''unexpected EOF''\<rparr>) encoded other)
            test_client () [])
       = Inl ''failed to read response body: unexpected EOF''
   \<and> fst (makeAnalysisRequest
            (answering (Inr \<lparr>StatusCode = 401, ReadAll_Body = Inr ''denied''\<rparr>) encoded other)
            test_client () [])
       = Inl ''governance service returned status 401: denied''
   \<and> fst (makeAnalysisRequest
            (answering (Inr \<lparr>StatusCode = 200, ReadAll_Body = Inr ''<html>''\<rparr>) encoded other)
            test_client () [])
       = Inl ''failed to unmarshal response: invalid character '<' looking for beginning of value''
   \<and> fst (makeAnalysisRequest
            (answering (Inr \<lparr>StatusCode = 200, ReadAll_Body = Inr ''[]''\<rparr>) encoded other)
            test_client () [])
       = Inr []
   \<and> fst (makeAnalysisRequest
            (answering (Inr \<lparr>StatusCode = 200, ReadAll_Body = Inr ''[{}]''\<rparr>) encoded other)
            test_client () [])
       = Inr [zero_finding]"
proof (intro allI)
  fix encoded other
  have m: "json_Marshal (answering outcome encoded other) () = Inr encoded" for outcome
    by (simp add: answering_def)
  have n: "NewRequest_error (answering outcome encoded other) ''POST''
             (baseURL test_client @ ''/rulesets/evaluate'') = None" for outcome
    by (simp add: answering_def)
  note t = makeAnalysisRequest_outcomes [OF m n, of _ "[]"]
  show "fst (makeAnalysisRequest
            (answering (Inl ''connection refused'') encoded other) test_client () [])
       = Inl ''failed to make request: connection refused''
   \<and> fst (makeAnalysisRequest
            (answering (Inr \<lparr>StatusCode = 200, ReadAll_Body = Inl ''unexpected EOF''\<rparr>) encoded other)
            test_client () [])
       = Inl ''failed to read response body: unexpected EOF''
   \<and> fst (makeAnalysisRequest
            (answering (Inr \<lparr>StatusCode = 401, ReadAll_Body = Inr ''denied''\<rparr>) encoded other)
            test_client () [])
       = Inl ''governance service returned status 401: denied''
   \<and> fst (makeAnalysisRequest
            (answering (Inr \<lparr>StatusCode = 200, ReadAll_Body = Inr ''<html>''\<rparr>) encoded other)
            test_client () [])
       = Inl ''failed to unmarshal response: invalid character '<' looking for beginning of value''
   \<and> fst (makeAnalysisRequest
            (answering (Inr \<lparr>StatusCode = 200, ReadAll_Body = Inr ''[]''\<rparr>) encoded other)
            test_client () [])
       = Inr []
   \<and> fst (makeAnalysisRequest
            (answering (Inr \<lparr>StatusCode = 200, ReadAll_Body = Inr ''[{}]''\<rparr>) encoded other)
            test_client () [])
       = Inr [zero_finding]"
    using t [of "Inl ''connection refused''"]
      t [of "Inr \<lparr>StatusCode = 200, ReadAll_Body = Inl ''unexpected EOF''\<rparr>"]
      t [of "Inr \<lparr>StatusCode = 401, ReadAll_Body = Inr ''denied''\<rparr>"]
      t [of "Inr \<lparr>StatusCode = 200, ReadAll_Body = Inr ''<html>''\<rparr>"]
      t [of "Inr \<lparr>StatusCode = 200, ReadAll_Body = Inr ''[]''\<rparr>"]
      t [of "Inr \<lparr>StatusCode = 200, ReadAll_Body = Inr ''[{}]''\<rparr>"]
    by (simp add: answering_def Unmarshal_findings_def fmt_d_small)
qed

text \<open>
  The claim as first stated fails on three answers: a body \<open>null\<close> with status 200 is valid
  JSON and no array, and it is a success with no findings; a body \<open>[null]\<close> with status 200 is
  an array whose element is no finding object, and it is a success with one finding at its
  zero value; an answer with status 500 whose body cannot be read is an error that carries
  neither the status code nor a body.
\<close>

theorem makeAnalysisRequest_null_body_counterexample:
  "\<forall>encoded other.
     fst (makeAnalysisRequest
            (answering (Inr \<lparr>StatusCode = 200, ReadAll_Body = Inr ''null''\<rparr>) encoded other)
            test_client () [])
       = Inr []
   \<and> fst (makeAnalysisRequest
            (answering (Inr \<lparr>StatusCode = 200, ReadAll_Body = Inr ''[null]''\<rparr>) encoded other)
            test_client () [])
       = Inr [zero_finding]
   \<and> fst (makeAnalysisRequest
            (answering (Inr \<lparr>StatusCode = 500, ReadAll_Body = Inl ''unexpected EOF''\<rparr>) encoded other)
            test_client () [])
       = Inl ''failed to read response body: unexpected EOF''"
  by (simp add: makeAnalysisRequest_def answering_def Unmarshal_findings_def Let_def)

section \<open>Properties of the result processor\<close>

text \<open>
  Claim C2. \<open>processResults\<close> always returns, and it returns an error exactly when the number
  of findings of severity 0 is positive; the message of the error is then \<open>governance analysis
  failed with E errors and W warnings\<close> with the two counts in decimal. With no finding of
  severity 0 it returns \<open>nil\<close>, however many findings of severity 1 there are.
\<close>

theorem processResults_error_iff:
  "\<exists>w'. processResults results w =
      Some (if 0 < count_severity 0 results
            then Some (''governance analysis failed with '' @ fmt_d (count_severity 0 results)
                       @ '' errors and '' @ fmt_d (count_severity 1 results) @ '' warnings'')
            else None, w')"
proof (cases "results = []")
  case True
  then show ?thesis by (simp add: processResults_empty count_severity_def)
next
  case False
  then show ?thesis by (simp add: processResults_nonempty failure_message_def)
qed

text \<open>
  The theorem on one error, one warning and one finding of another severity, on two
  warnings, and on no findings.
\<close>

theorem processResults_error_iff_witness:
  "(\<exists>w'. processResults [finding_at 0 1 1, finding_at 1 1 2, finding_at 2 1 1] one_line_world =
       Some (Some ''governance analysis failed with 1 errors and 1 warnings'', w'))
   \<and> (\<exists>w'. processResults [finding_at 1 1 1, finding_at 1 1 1] one_line_world = Some (None, w'))
   \<and> (\<exists>w'. processResults [] one_line_world = Some (None, w'))"
  using processResults_error_iff [of "[finding_at 0 1 1, finding_at 1 1 2, finding_at 2 1 1]" one_line_world]
    processResults_error_iff [of "[finding_at 1 1 1, finding_at 1 1 1]" one_line_world]
    processResults_error_iff [of "[]" one_line_world]
  by (simp add: count_severity_def finding_at_def fmt_d_small)

text \<open>
  Claim C3. The loop of \<open>processResults\<close> ends with \<open>errorCount\<close> the number of findings of
  severity 0 and \<open>warningCount\<close> the number of findings of severity 1; the total it writes is
  the length of the sequence. The two counts add up to at most the total, and to the total
  exactly when every finding has severity 0 or 1. For a non-empty sequence these three
  numbers are what \<open>processResults\<close> hands to the output writers.
\<close>

theorem processResults_counts:
  "report_loop oasLines results (0, 0, out) =
     Some (count_severity 0 results, count_severity 1 results,
           out @ concat (map (finding_report oasLines) results))
   \<and> count_severity 0 results + count_severity 1 results \<le> int (length results)
   \<and> (count_severity 0 results + count_severity 1 results = int (length results)
        \<longleftrightarrow> (\<forall>r\<in>set results. Severity r = 0 \<or> Severity r = 1))
   \<and> (results \<noteq> [] \<longrightarrow>
        (\<exists>err. processResults results w =
           Some (err, set_outputs (count_severity 0 results) (count_severity 1 results)
                        (int (length results)) (reported results w))))"
  using report_loop_eq [of oasLines results 0 0 out] count_severity_bound [of results]
    processResults_nonempty [of results w]
  by (simp add: reported_def)

text \<open>
  The theorem on a sequence with a finding of severity 2, where the counts stay below the
  total, and on one with severities 0 and 1 only, where they reach it.
\<close>

theorem processResults_counts_witness:
  "report_loop [] [finding_at 0 1 1, finding_at 1 1 2, finding_at 2 1 1] (0, 0, []) =
     Some (1, 1, map finding_text [finding_at 0 1 1, finding_at 1 1 2, finding_at 2 1 1])
   \<and> count_severity 0 [finding_at 0 1 1, finding_at 1 1 2, finding_at 2 1 1]
       + count_severity 1 [finding_at 0 1 1, finding_at 1 1 2, finding_at 2 1 1] < 3
   \<and> count_severity 0 [finding_at 0 1 1, finding_at 1 1 2]
       + count_severity 1 [finding_at 0 1 1, finding_at 1 1 2] = 2
   \<and> (\<exists>err. processResults [finding_at 0 1 1, finding_at 1 1 2, finding_at 2 1 1] one_line_world =
         Some (err, set_outputs 1 1 3
                 (reported [finding_at 0 1 1, finding_at 1 1 2, finding_at 2 1 1] one_line_world)))"
  using processResults_counts [of "[]" "[finding_at 0 1 1, finding_at 1 1 2, finding_at 2 1 1]" "[]" one_line_world]
    processResults_counts [of "[]" "[finding_at 0 1 1, finding_at 1 1 2]" "[]" one_line_world]
  by (simp add: count_severity_def finding_at_def finding_report_no_lines)

text \<open>
  Claim C6. On the empty sequence \<open>processResults\<close> returns \<open>nil\<close> at once: it logs that no
  issues were found and makes no file-system call, writes nothing to standard output and
  leaves the environment as it is, whatever the document path; the counts of the empty
  sequence and its length are zero.
\<close>

theorem processResults_empty_frame:
  "\<exists>w'. processResults [] w = Some (None, w')
      \<and> fs_calls w' = fs_calls w \<and> stdout w' = stdout w \<and> os_env w' = os_env w
      \<and> logged w' = logged w @ [(''info'', ''No governance issues found'', [])]
      \<and> report_loop oasLines [] (0, 0, out) = Some (0, 0, out)
      \<and> int (length ([] :: LintResult list)) = 0"
  by (simp add: processResults_empty)

text \<open>
  The theorem on a world whose document path names a readable file.
\<close>

theorem processResults_empty_frame_witness:
  "\<exists>w'. processResults [] one_line_world = Some (None, w')
      \<and> fs_calls w' = [] \<and> stdout w' = []
      \<and> logged w' = [(''info'', ''No governance issues found'', [])]"
proof -
  have e: "fs_calls one_line_world = []" "stdout one_line_world = []" "logged one_line_world = []"
    by (simp_all add: one_line_world_def)
  show ?thesis
    using processResults_empty_frame [of one_line_world]
    by (auto simp add: e)
qed

text \<open>
  Claim C8, as amended. For a non-empty sequence the output is the banner, then for each
  finding in order its entry followed by a snippet block exactly when lines were loaded, the
  start line is positive and the end line is at most the number of loaded lines, then the
  footer. The block holds the lines numbered from the start line to the end line, each
  printed as four spaces of indentation, the line number in a field of width four, a bar and
  the line: line 1 of a one-line document is printed as \<open>       1 | <line>\<close>.
\<close>

theorem processResults_snippets:
  "results \<noteq> [] \<Longrightarrow>
   \<exists>err w'. processResults results w = Some (err, w')
     \<and> stdout w' = stdout w @ [report_banner]
          @ concat (map (finding_report (fst (read_oasLines w))) results) @ [report_footer]"
  by (simp add: processResults_nonempty set_outputs_stdout)

text \<open>
  The theorem on a one-line document: a finding at line 1 shows the line with its number, a
  finding that ends at line 2 shows no block.
\<close>

theorem processResults_snippets_witness:
  "\<exists>err w'. processResults [finding_at 0 1 1, finding_at 1 1 2] one_line_world = Some (err, w')
     \<and> stdout w' =
        [report_banner,
         finding_text (finding_at 0 1 1),
         ''    --- OAS snippet ---\<newline>'',
         ''       1 | openapi: 3.1.0\<newline>'',
         ''    -------------------\<newline>'',
         finding_text (finding_at 1 1 2),
         report_footer]"
proof -
  have r: "fst (read_oasLines one_line_world) = [''openapi: 3.1.0'']"
    by (simp add: read_oasLines_eq one_line_world_def Getenv_def Let_def)
  have f1: "finding_report [''openapi: 3.1.0''] (finding_at 0 1 1) =
      [finding_text (finding_at 0 1 1), ''    --- OAS snippet ---\<newline>'',
       ''       1 | openapi: 3.1.0\<newline>'', ''    -------------------\<newline>'']"
    by (simp add: finding_report_def has_snippet_def snippet_block_def snippet_line_def
        finding_at_def fmt_4d_1)
  have f2: "finding_report [''openapi: 3.1.0''] (finding_at 1 1 2) = [finding_text (finding_at 1 1 2)]"
    by (simp add: finding_report_def has_snippet_def finding_at_def)
  have s: "stdout one_line_world = []"
    by (simp add: one_line_world_def)
  show ?thesis
    using processResults_snippets [of "[finding_at 0 1 1, finding_at 1 1 2]" one_line_world]
    by (simp add: r f1 f2 s)
qed

text \<open>
  The claim as first stated has the number first, \<open>   1 | <line>\<close>. On the one-line document
  and a finding at line 1 the line printed is not that text: it has the four spaces of the
  format before the number.
\<close>

theorem processResults_snippet_line_counterexample:
  "map_option (stdout \<circ> snd) (processResults [finding_at 0 1 1] one_line_world) =
     Some [report_banner,
           finding_text (finding_at 0 1 1),
           ''    --- OAS snippet ---\<newline>'',
           ''       1 | openapi: 3.1.0\<newline>'',
           ''    -------------------\<newline>'',
           report_footer]
   \<and> claimed_snippet_line [''openapi: 3.1.0''] 1 = ''   1 | openapi: 3.1.0\<newline>''
   \<and> ''       1 | openapi: 3.1.0\<newline>'' \<noteq> claimed_snippet_line [''openapi: 3.1.0''] 1"
proof -
  have r: "fst (read_oasLines one_line_world) = [''openapi: 3.1.0'']"
    by (simp add: read_oasLines_eq one_line_world_def Getenv_def Let_def)
  have f: "finding_report [''openapi: 3.1.0''] (finding_at 0 1 1) =
      [finding_text (finding_at 0 1 1), ''    --- OAS snippet ---\<newline>'',
       ''       1 | openapi: 3.1.0\<newline>'', ''    -------------------\<newline>'']"
    by (simp add: finding_report_def has_snippet_def snippet_block_def snippet_line_def
        finding_at_def fmt_4d_1)
  have s: "stdout one_line_world = []"
    by (simp add: one_line_world_def)
  have p: "map_option (stdout \<circ> snd) (processResults [finding_at 0 1 1] one_line_world) =
     Some [report_banner, finding_text (finding_at 0 1 1), ''    --- OAS snippet ---\<newline>'',
           ''       1 | openapi: 3.1.0\<newline>'', ''    -------------------\<newline>'',
           report_footer]"
    by (simp add: processResults_nonempty set_outputs_stdout r f s)
  have c: "claimed_snippet_line [''openapi: 3.1.0''] 1 = ''   1 | openapi: 3.1.0\<newline>''"
    by (simp add: claimed_snippet_line_def fmt_4d_1)
  show ?thesis
    using p c by simp
qed

text \<open>
  Claim C9. The outputs are written for every sequence of findings before \<open>processResults\<close>
  returns. The code returns on the empty sequence before it reaches the output writers: with
  both platform flags set, writing the summary of the empty sequence would make six
  file-system calls with six lines, and \<open>processResults\<close> makes none, while a sequence with a
  single warning does write its counts, \<open>error_count=0\<close> among them.
\<close>

theorem processResults_empty_skips_outputs:
  "processResults [] one_line_world =
     Some (None, one_line_world\<lparr>logged := [(''info'', ''No governance issues found'', [])]\<rparr>)
   \<and> fs_calls (one_line_world\<lparr>logged := [(''info'', ''No governance issues found'', [])]\<rparr>) = []
   \<and> fs_calls (set_outputs 0 0 0 one_line_world) =
       [OpenFile ''out.txt'', Fprintf ''out.txt'' ''error_count=0\<newline>'',
        OpenFile ''out.txt'', Fprintf ''out.txt'' ''warning_count=0\<newline>'',
        OpenFile ''out.txt'', Fprintf ''out.txt'' ''total_issues=0\<newline>'',
        OpenFile ''governance_output.env'', Fprintf ''governance_output.env'' ''export error_count=0\<newline>'',
        OpenFile ''governance_output.env'', Fprintf ''governance_output.env'' ''export warning_count=0\<newline>'',
        OpenFile ''governance_output.env'', Fprintf ''governance_output.env'' ''export total_issues=0\<newline>'']
   \<and> (\<exists>w'. processResults [finding_at 1 1 1] one_line_world = Some (None, w')
        \<and> fs_calls w' =
       [Open ''api.yaml'',
        OpenFile ''out.txt'', Fprintf ''out.txt'' ''error_count=0\<newline>'',
        OpenFile ''out.txt'', Fprintf ''out.txt'' ''warning_count=1\<newline>'',
        OpenFile ''out.txt'', Fprintf ''out.txt'' ''total_issues=1\<newline>'',
        OpenFile ''governance_output.env'', Fprintf ''governance_output.env'' ''export error_count=0\<newline>'',
        OpenFile ''governance_output.env'', Fprintf ''governance_output.env'' ''export warning_count=1\<newline>'',
        OpenFile ''governance_output.env'', Fprintf ''governance_output.env'' ''export total_issues=1\<newline>''])"
proof -
  have a: "processResults [] one_line_world =
     Some (None, one_line_world\<lparr>logged := [(''info'', ''No governance issues found'', [])]\<rparr>)"
    by (simp add: processResults_empty one_line_world_def)
  have b: "fs_calls (one_line_world\<lparr>logged := [(''info'', ''No governance issues found'', [])]\<rparr>) = []"
    by (simp add: one_line_world_def)
  have c: "fs_calls (set_outputs e wc n w) =
      fs_calls w @
       [OpenFile ''out.txt'', Fprintf ''out.txt'' (''error_count='' @ fmt_d e @ ''\<newline>''),
        OpenFile ''out.txt'', Fprintf ''out.txt'' (''warning_count='' @ fmt_d wc @ ''\<newline>''),
        OpenFile ''out.txt'', Fprintf ''out.txt'' (''total_issues='' @ fmt_d n @ ''\<newline>''),
        OpenFile ''governance_output.env'', Fprintf ''governance_output.env'' (''export error_count='' @ fmt_d e @ ''\<newline>''),
        OpenFile ''governance_output.env'', Fprintf ''governance_output.env'' (''export warning_count='' @ fmt_d wc @ ''\<newline>''),
        OpenFile ''governance_output.env'', Fprintf ''governance_output.env'' (''export total_issues='' @ fmt_d n @ ''\<newline>'')]"
    if "os_env w = os_env one_line_world" "os_openfile w = (\<lambda>p. True)" for e wc n w
    using that
    by (simp add: set_outputs_def setGitHubOutput_def setGitLabOutput_def Let_def
        one_line_world_def Getenv_def Setenv_def)
  have d: "fs_calls (set_outputs 0 0 0 one_line_world) = fs_calls one_line_world @
       [OpenFile ''out.txt'', Fprintf ''out.txt'' ''error_count=0\<newline>'',
        OpenFile ''out.txt'', Fprintf ''out.txt'' ''warning_count=0\<newline>'',
        OpenFile ''out.txt'', Fprintf ''out.txt'' ''total_issues=0\<newline>'',
        OpenFile ''governance_output.env'', Fprintf ''governance_output.env'' ''export error_count=0\<newline>'',
        OpenFile ''governance_output.env'', Fprintf ''governance_output.env'' ''export warning_count=0\<newline>'',
        OpenFile ''governance_output.env'', Fprintf ''governance_output.env'' ''export total_issues=0\<newline>'']"
    using c [of one_line_world 0 0 0]
    by (simp add: one_line_world_def fmt_d_small)
  have r: "read_oasLines one_line_world =
      ([''openapi: 3.1.0''], one_line_world\<lparr>fs_calls := [Open ''api.yaml'']\<rparr>)"
    by (simp add: read_oasLines_eq one_line_world_def Getenv_def Let_def)
  have g: "processResults [finding_at 1 1 1] one_line_world =
      Some (None, set_outputs 0 1 1 (reported [finding_at 1 1 1] one_line_world))"
    by (simp add: processResults_nonempty reported_def count_severity_def finding_at_def)
  have h: "fs_calls (set_outputs 0 1 1 (reported [finding_at 1 1 1] one_line_world)) =
       [Open ''api.yaml'',
        OpenFile ''out.txt'', Fprintf ''out.txt'' ''error_count=0\<newline>'',
        OpenFile ''out.txt'', Fprintf ''out.txt'' ''warning_count=1\<newline>'',
        OpenFile ''out.txt'', Fprintf ''out.txt'' ''total_issues=1\<newline>'',
        OpenFile ''governance_output.env'', Fprintf ''governance_output.env'' ''export error_count=0\<newline>'',
        OpenFile ''governance_output.env'', Fprintf ''governance_output.env'' ''export warning_count=1\<newline>'',
        OpenFile ''governance_output.env'', Fprintf ''governance_output.env'' ''export total_issues=1\<newline>'']"
    using c [of "reported [finding_at 1 1 1] one_line_world" 0 1 1]
    by (simp add: reported_def r fmt_d_small) (simp add: one_line_world_def)
  show ?thesis
    using a b d g h by (simp add: one_line_world_def)
qed

text \<open>
  Claim C10. The document path for the snippets is the first non-empty value of
  \<open>INPUT_API_PATH\<close> and \<open>API_PATH\<close>; neither \<open>OAS_FILE_PATH\<close> nor the configuration is
  consulted. When both variables are empty, as in a run whose path comes from the alias
  alone, the configuration holds the path of the alias, yet no file is opened, no line is
  loaded and no snippet block is printed; the entries of the report, the counts, the outputs
  and the result are those of any other run.
\<close>

theorem processResults_document_path:
  "read_oasLines w =
     (let p = first_non_empty [Getenv (os_env w) ''INPUT_API_PATH'', Getenv (os_env w) ''API_PATH'']
      in if p = [] then ([], w)
         else (case os_open w p of None \<Rightarrow> [] | Some scanned \<Rightarrow> scanned,
               w\<lparr>fs_calls := fs_calls w @ [Open p]\<rparr>))
   \<and> (Getenv (os_env w) ''INPUT_API_PATH'' = [] \<and> Getenv (os_env w) ''API_PATH'' = []
        \<and> results \<noteq> [] \<longrightarrow>
        map_sum id APIPath (getConfiguration (os_env w)) = Inr (Getenv (os_env w) ''OAS_FILE_PATH'')
        \<and> read_oasLines w = ([], w)
        \<and> processResults results w =
            Some (if 0 < count_severity 0 results
                  then Some (failure_message (count_severity 0 results) (count_severity 1 results))
                  else None,
                  set_outputs (count_severity 0 results) (count_severity 1 results)
                    (int (length results))
                    (w\<lparr>stdout := stdout w @ [report_banner] @ map finding_text results
                         @ [report_footer]\<rparr>)))"
proof -
  have "map_sum id APIPath (getConfiguration (os_env w)) = Inr (Getenv (os_env w) ''OAS_FILE_PATH'')"
    if "Getenv (os_env w) ''INPUT_API_PATH'' = []" "Getenv (os_env w) ''API_PATH'' = []"
    using that by (simp add: getConfiguration_tiers)
  moreover have "read_oasLines w = ([], w)"
    if "Getenv (os_env w) ''INPUT_API_PATH'' = []" "Getenv (os_env w) ''API_PATH'' = []"
    using that by (simp add: read_oasLines_eq)
  ultimately show ?thesis
    using read_oasLines_eq [of w]
    by (auto simp add: processResults_nonempty report_no_lines)
qed

text \<open>
  The theorem on a world whose only document path is \<open>OAS_FILE_PATH\<close>, naming a readable
  file.
\<close>

theorem processResults_document_path_witness:
  "Getenv (os_env legacy_world) ''INPUT_API_PATH'' = [] \<and> Getenv (os_env legacy_world) ''API_PATH'' = []
   \<and> map_sum id APIPath (getConfiguration (os_env legacy_world)) = Inr ''api.yaml''
   \<and> read_oasLines legacy_world = ([], legacy_world)
   \<and> processResults [finding_at 1 1 1] legacy_world =
       Some (None, set_outputs 0 1 1
          (legacy_world\<lparr>stdout := [report_banner, finding_text (finding_at 1 1 1), report_footer]\<rparr>))"
proof -
  have e: "Getenv (os_env legacy_world) ''INPUT_API_PATH'' = []"
      "Getenv (os_env legacy_world) ''API_PATH'' = []"
      "Getenv (os_env legacy_world) ''OAS_FILE_PATH'' = ''api.yaml''"
      "stdout legacy_world = []"
    by (simp_all add: legacy_world_def Getenv_def)
  show ?thesis
    using processResults_document_path [of legacy_world "[finding_at 1 1 1]"]
    by (simp add: e count_severity_def finding_at_def)
qed

end
